theory Spec2Isabelle
  imports Main "HOL-Library.Char_ord" "HOL-Library.List_Lexorder" "HOL-Library.AList"
begin

section \<open>Data model\<close>

text \<open>
  Strings are Isabelle strings (lists of 8-bit characters); the repository names, logins
  and header values the program handles are ASCII. With \<open>Char_ord\<close> and
  \<open>List_Lexorder\<close> the order on strings is the lexicographic order by code point, which
  is how Python compares \<open>str\<close> values.

  A Python \<open>dict\<close> keeps its keys in insertion order, so it is an association list
  with distinct keys: \<open>d[k] = v\<close> is \<open>AList.update k v d\<close> (the value is replaced in
  place when the key is there, the pair is appended otherwise) and \<open>k in d\<close> is
  \<open>k \<in> fst ` set d\<close>.
\<close>

type_synonym 'v dict = "(string \<times> 'v) list"

datatype json =
    JNull
  | JBool bool
  | JNum int
  | JStr string
  | JArr "json list"
  | JObj "(string \<times> json) list"

text \<open>
  The exceptions that the modelled code can raise. \<open>RuntimeError\<close> is the only one the
  source raises itself; the others come from the operations it calls (\<open>int\<close>, a
  missing dictionary key, \<open>datetime.fromtimestamp\<close>, \<open>strptime\<close>, and whatever the
  transport or an external collaborator raises).
\<close>

datatype error =
    RuntimeError string
  | KeyError string
  | ValueError string
  | OverflowError
  | External string

text \<open>The keyword arguments the callers of the request client pass on to the transport.\<close>

record kwargs =
  kw_headers :: "string dict option"
  kw_params :: "string dict option"
  kw_auth :: "(string \<times> string) option"
  kw_json :: "json option"

definition no_kwargs :: kwargs where
  "no_kwargs = \<lparr>kw_headers = None, kw_params = None, kw_auth = None, kw_json = None\<rparr>"

datatype verb = GET | POST | PUT | PATCH | DELETE

text \<open>One call of the transport library: the verb, the URL, the fixed timeout and the options.\<close>

record request =
  rq_verb :: verb
  rq_url :: string
  rq_timeout :: int
  rq_kwargs :: kwargs

text \<open>
  The payloads of the GitHub endpoints the program reads, after \<open>response.json()\<close>, with the
  fields the program looks at. The presence of \<open>merged_at\<close> and of \<open>pull_request\<close> is
  tested by the code, so both are part of the model; the other fields are read
  unconditionally and are taken to be there.
\<close>

record issue =
  issue_html_url :: string
  issue_title :: string
  has_pull_request :: bool

datatype merged_at_field = Absent | Null | Stamp string

record pull =
  merged_at :: merged_at_field
  user_login :: string
  pull_url :: string

record pull_info =
  merged_by_login :: string
  info_url :: string

record review =
  review_state :: string
  review_user_login :: string

datatype payload =
    IssueList "issue list"
  | PullList "pull list"
  | PullInfo pull_info
  | ReviewList "review list"
  | RefObject string
  | ContentObject string
  | Message string
  | NoJson

text \<open>
  A response: \<open>ok\<close> is \<open>response.ok\<close>, \<open>headers\<close> is \<open>response.headers\<close>,
  \<open>body_text\<close> is \<open>response.text\<close> and \<open>payload\<close> what \<open>response.json()\<close>
  gives.
\<close>

record response =
  ok :: bool
  headers :: "string dict"
  body_text :: string
  payload :: payload

text \<open>
  The world the program runs in. \<open>clock\<close> is the local wall-clock time in microseconds
  (the resolution of \<open>datetime\<close>). \<open>delays\<close> lists how long, in microseconds, each of
  the coming clock readings, sleeps and requests takes beyond what was asked for (nothing
  once the list is used up): the clock never goes back, and how fast it goes forward is
  not under the program's control. \<open>environ\<close> is \<open>os.environ\<close>. \<open>sent\<close> is the log
  of the requests handed to the transport, oldest first. \<open>ext\<close> is the state of everything
  outside the program: the remote server and the external collaborators.
\<close>

record 'e world =
  clock :: int
  delays :: "nat list"
  environ :: "string dict"
  sent :: "request list"
  ext :: 'e

type_synonym ('a, 'e) result = "(error + 'a) \<times> 'e world"

text \<open>The transport (\<open>requests.get\<close> and its siblings): it answers or raises, and changes
  the outside state.\<close>

type_synonym 'e transport = "request \<Rightarrow> 'e \<Rightarrow> (error + response) \<times> 'e"


section \<open>Time\<close>

definition elapse :: "'e world \<Rightarrow> 'e world" where
  "elapse w = (case delays w of
       [] \<Rightarrow> w
     | d # ds \<Rightarrow> w\<lparr>clock := clock w + int d, delays := ds\<rparr>)"

text \<open>\<open>datetime.datetime.now()\<close>: the reading, and the world after it.\<close>

definition now :: "'e world \<Rightarrow> int \<times> 'e world" where
  "now w = (clock (elapse w), elapse w)"

text \<open>\<open>time.sleep(secs)\<close>: at least \<open>secs\<close> seconds pass.\<close>

definition sleep :: "int \<Rightarrow> 'e world \<Rightarrow> 'e world" where
  "sleep secs w = elapse (w\<lparr>clock := clock w + secs * 1000000\<rparr>)"

text \<open>
  \<open>datetime.datetime.fromtimestamp(n)\<close> for an integer \<open>n\<close>: the local time \<open>n\<close> seconds
  after the epoch, on the scale of \<open>clock\<close>. It raises outside the years 1 to 9999.
\<close>

definition fromtimestamp :: "int \<Rightarrow> error + int" where
  "fromtimestamp n =
     (if - 62135596800 \<le> n \<and> n \<le> 253402300799 then Inr (n * 1000000) else Inl OverflowError)"

text \<open>
  The \<open>seconds\<close> attribute of a \<open>timedelta\<close> of \<open>d\<close> microseconds. A \<open>timedelta\<close> is
  normalised to days, seconds in \<open>[0, 86400)\<close> and microseconds in \<open>[0, 1000000)\<close>, so
  the attribute leaves the whole days out, and is not negative for a negative difference.
\<close>

definition timedelta_seconds :: "int \<Rightarrow> int" where
  "timedelta_seconds d = (d mod (86400 * 1000000)) div 1000000"


section \<open>Conversions of the Python runtime\<close>

definition lower_char :: "char \<Rightarrow> char" where
  "lower_char c =
     (if CHR ''A'' \<le> c \<and> c \<le> CHR ''Z'' then char_of (of_char c + (32::nat)) else c)"

text \<open>\<open>str.lower\<close>.\<close>

definition lower :: "string \<Rightarrow> string" where
  "lower s = map lower_char s"

definition is_space :: "char \<Rightarrow> bool" where
  "is_space c = ((of_char c :: nat) \<in> set [9, 10, 11, 12, 13, 28, 29, 30, 31, 32, 133, 160])"

definition is_digit :: "char \<Rightarrow> bool" where
  "is_digit c = (CHR ''0'' \<le> c \<and> c \<le> CHR ''9'')"

definition digit_val :: "char \<Rightarrow> int" where
  "digit_val c = int (of_char c) - 48"

text \<open>No underscore at either end and no two in a row.\<close>

fun underscores_ok :: "string \<Rightarrow> bool" where
  "underscores_ok [] = False"
| "underscores_ok [c] = is_digit c"
| "underscores_ok (c # d # cs) =
     ((is_digit c \<or> (c = CHR ''_'' \<and> is_digit d)) \<and> underscores_ok (d # cs))"

definition strip :: "string \<Rightarrow> string" where
  "strip s = rev (dropWhile is_space (rev (dropWhile is_space s)))"

definition digits_value :: "string \<Rightarrow> int" where
  "digits_value s = foldl (\<lambda>acc c. 10 * acc + digit_val c) 0 (filter (\<lambda>c. c \<noteq> CHR ''_'') s)"

text \<open>
  \<open>int(s)\<close> for a string: surrounding white space is dropped, a sign may come first, then
  decimal digits, which single underscores may separate. \<open>None\<close> is \<open>ValueError\<close>.
\<close>

definition py_int :: "string \<Rightarrow> int option" where
  "py_int s =
     (case strip s of
        [] \<Rightarrow> None
      | c # cs \<Rightarrow>
          if c = CHR ''-'' then
            (if is_digit (hd (cs @ ''_'')) \<and> underscores_ok cs then Some (- digits_value cs) else None)
          else if c = CHR ''+'' then
            (if is_digit (hd (cs @ ''_'')) \<and> underscores_ok cs then Some (digits_value cs) else None)
          else
            (if is_digit c \<and> underscores_ok (c # cs) then Some (digits_value (c # cs)) else None))"

fun nat_digits :: "nat \<Rightarrow> string" where
  "nat_digits n =
     (if n < 10 then [char_of (48 + n)] else nat_digits (n div 10) @ [char_of (48 + n mod 10)])"

declare nat_digits.simps [simp del]

text \<open>\<open>str(n)\<close> for an integer: its decimal rendering.\<close>

definition py_str :: "int \<Rightarrow> string" where
  "py_str n = (if n < 0 then CHR ''-'' # nat_digits (nat (- n)) else nat_digits (nat n))"


text \<open>
  The lookup in \<open>response.headers\<close>, the transport library's dictionary whose keys
  are compared without regard to case.
\<close>

definition header_lookup :: "string dict \<Rightarrow> string \<Rightarrow> string option" where
  "header_lookup hs k = map_of (map (\<lambda>(h, v). (lower h, v)) hs) (lower k)"


section \<open>The request client\<close>

text \<open>\<open>_fix_url\<close>\<close>

definition fix_url :: "string \<Rightarrow> string" where
  "fix_url url = (if take 1 url = ''/'' then ''https://api.github.com'' @ url else url)"

definition api_version :: string where
  "api_version =
     ''application/vnd.github.scarlet-witch-preview+json;application/vnd.github.hellcat-preview+json''"

text \<open>\<open>_fix_kwargs\<close>, with \<open>os.environ\<close> as an argument.\<close>

definition fix_kwargs :: "string dict \<Rightarrow> kwargs \<Rightarrow> kwargs" where
  "fix_kwargs env kw =
     (let kw1 =
        (case kw_headers kw of
           Some hs \<Rightarrow>
             (case map_of hs ''Accept'' of
                Some a \<Rightarrow> kw\<lparr>kw_headers := Some (AList.update ''Accept'' (a @ '';'' @ api_version) hs)\<rparr>
              | None \<Rightarrow> kw\<lparr>kw_headers := Some (AList.update ''Accept'' api_version hs)\<rparr>)
         | None \<Rightarrow>
             kw\<lparr>kw_headers := Some [(''Accept'', ''application/vnd.github.hellcat-preview+json'')]\<rparr>)
      in
        (case map_of env ''ADABOT_GITHUB_ACCESS_TOKEN'' of
           Some access_token \<Rightarrow>
             (if kw_auth kw1 = None then
                (case kw_params kw1 of
                   Some ps \<Rightarrow> kw1\<lparr>kw_params := Some (AList.update ''access_token'' access_token ps)\<rparr>
                 | None \<Rightarrow> kw1\<lparr>kw_params := Some [(''access_token'', access_token)]\<rparr>)
              else kw1)
         | None \<Rightarrow> kw1))"

text \<open>
  What every verb function does first: \<open>requests.<verb>(_fix_url(url), timeout=30,
  **_fix_kwargs(kwargs))\<close>. The request is logged, the transport answers or raises, and
  the call takes some time.
\<close>

definition outbound :: "verb \<Rightarrow> string \<Rightarrow> kwargs \<Rightarrow> 'e world \<Rightarrow> request" where
  "outbound v url kw w =
     \<lparr>rq_verb = v, rq_url = fix_url url, rq_timeout = 30, rq_kwargs = fix_kwargs (environ w) kw\<rparr>"

definition send :: "'e transport \<Rightarrow> request \<Rightarrow> 'e world \<Rightarrow> (response, 'e) result" where
  "send net rq w =
     (case net rq (ext w) of
        (r, e') \<Rightarrow> (r, elapse (w\<lparr>sent := sent w @ [rq], ext := e'\<rparr>)))"

text \<open>
  The loop of \<open>get\<close> that waits for the rate limit to be reset. The clock is read once for
  the loop test and, outside Travis, once more for the length of the sleep.
\<close>

function wait_for_reset :: "int \<Rightarrow> 'e world \<Rightarrow> 'e world" where
  "wait_for_reset rate_limit_reset w =
     (if fst (now w) < rate_limit_reset then
        (if ''TRAVIS'' \<in> fst ` set (environ w) then
           wait_for_reset rate_limit_reset (sleep 300 (snd (now w)))
         else
           (let w1 = snd (now w);
                reset_diff = rate_limit_reset - fst (now w1)
            in wait_for_reset rate_limit_reset
                 (sleep (timedelta_seconds reset_diff + 1) (snd (now w1)))))
      else snd (now w))"
  by pat_completeness auto

termination
proof (relation "measure (\<lambda>(r, w). nat (r - clock w))")
  show "wf (measure (\<lambda>(r, w :: 'e world). nat (r - clock w)))" by simp
next
  fix rate_limit_reset :: int and w :: "'e world"
  assume "fst (now w) < rate_limit_reset"
  then show "((rate_limit_reset, sleep 300 (snd (now w))), (rate_limit_reset, w))
        \<in> measure (\<lambda>(r, w). nat (r - clock w))"
    by (auto simp: now_def sleep_def elapse_def split: list.splits)
next
  fix rate_limit_reset :: int and w x :: "'e world" and xa :: int
  assume "fst (now w) < rate_limit_reset" and "x = snd (now w)"
    and "xa = rate_limit_reset - fst (now x)"
  moreover have "0 \<le> timedelta_seconds xa"
    by (simp add: timedelta_seconds_def pos_imp_zdiv_nonneg_iff)
  ultimately show
    "((rate_limit_reset, sleep (timedelta_seconds xa + 1) (snd (now x))), (rate_limit_reset, w))
        \<in> measure (\<lambda>(r, w). nat (r - clock w))"
    by (auto simp: now_def sleep_def elapse_def split: list.splits)
qed

declare wait_for_reset.simps [simp del]

text \<open>
  \<open>get\<close>. The notices it prints are left out. \<open>int\<close> of a header that is no integer,
  a missing reset header and a reset time that \<open>fromtimestamp\<close> refuses raise.
\<close>

definition get :: "'e transport \<Rightarrow> string \<Rightarrow> kwargs \<Rightarrow> 'e world \<Rightarrow> (response, 'e) result" where
  "get net url kw w =
     (case send net (outbound GET url kw w) w of
        (Inl e, w1) \<Rightarrow> (Inl e, w1)
      | (Inr response, w1) \<Rightarrow>
          (case header_lookup (headers response) ''X-RateLimit-Remaining'' of
             None \<Rightarrow> (Inr response, w1)
           | Some remaining_header \<Rightarrow>
               (case py_int remaining_header of
                  None \<Rightarrow> (Inl (ValueError remaining_header), w1)
                | Some remaining \<Rightarrow>
                    if remaining \<le> 1 then
                      (case header_lookup (headers response) ''X-RateLimit-Reset'' of
                         None \<Rightarrow> (Inl (KeyError ''X-RateLimit-Reset''), w1)
                       | Some reset_header \<Rightarrow>
                           (case py_int reset_header of
                              None \<Rightarrow> (Inl (ValueError reset_header), w1)
                            | Some ts \<Rightarrow>
                                (case fromtimestamp ts of
                                   Inl e \<Rightarrow> (Inl e, w1)
                                 | Inr rate_limit_reset \<Rightarrow>
                                     (Inr response, wait_for_reset rate_limit_reset w1))))
                    else (Inr response, w1))))"

definition post :: "'e transport \<Rightarrow> string \<Rightarrow> kwargs \<Rightarrow> 'e world \<Rightarrow> (response, 'e) result" where
  "post net url kw w = send net (outbound POST url kw w) w"

definition put :: "'e transport \<Rightarrow> string \<Rightarrow> kwargs \<Rightarrow> 'e world \<Rightarrow> (response, 'e) result" where
  "put net url kw w = send net (outbound PUT url kw w) w"

definition patch :: "'e transport \<Rightarrow> string \<Rightarrow> kwargs \<Rightarrow> 'e world \<Rightarrow> (response, 'e) result" where
  "patch net url kw w = send net (outbound PATCH url kw w) w"

definition delete :: "'e transport \<Rightarrow> string \<Rightarrow> kwargs \<Rightarrow> 'e world \<Rightarrow> (response, 'e) result" where
  "delete net url kw w = send net (outbound DELETE url kw w) w"


section \<open>The queries of the aggregator\<close>

record repo =
  name :: string
  html_url :: string

text \<open>\<open>response.json()\<close> read as the payload of one endpoint; another payload raises.\<close>

definition issues_of :: "response \<Rightarrow> error + issue list" where
  "issues_of r = (case payload r of IssueList xs \<Rightarrow> Inr xs | _ \<Rightarrow> Inl (KeyError ''html_url''))"

definition pulls_of :: "response \<Rightarrow> error + pull list" where
  "pulls_of r = (case payload r of PullList xs \<Rightarrow> Inr xs | _ \<Rightarrow> Inl (KeyError ''user''))"

definition pull_info_of :: "response \<Rightarrow> error + pull_info" where
  "pull_info_of r = (case payload r of PullInfo x \<Rightarrow> Inr x | _ \<Rightarrow> Inl (KeyError ''merged_by''))"

definition reviews_of :: "response \<Rightarrow> error + review list" where
  "reviews_of r = (case payload r of ReviewList xs \<Rightarrow> Inr xs | _ \<Rightarrow> Inl (KeyError ''state''))"

definition ref_sha_of :: "response \<Rightarrow> error + string" where
  "ref_sha_of r = (case payload r of RefObject s \<Rightarrow> Inr s | _ \<Rightarrow> Inl (KeyError ''object''))"

definition content_sha_of :: "response \<Rightarrow> error + string" where
  "content_sha_of r = (case payload r of ContentObject s \<Rightarrow> Inr s | _ \<Rightarrow> Inl (KeyError ''sha''))"

definition message_of :: "response \<Rightarrow> error + string" where
  "message_of r = (case payload r of Message s \<Rightarrow> Inr s | _ \<Rightarrow> Inl (KeyError ''message''))"

text \<open>The loop of \<open>get_open_issues_and_prs\<close> over the items of the page.\<close>

fun sort_issues ::
  "issue list \<Rightarrow> string dict list \<Rightarrow> string dict list \<Rightarrow> string dict list \<times> string dict list" where
  "sort_issues [] open_issues open_pull_requests = (open_issues, open_pull_requests)"
| "sort_issues (i # issues) open_issues open_pull_requests =
     (if \<not> has_pull_request i then
        sort_issues issues (open_issues @ [[(issue_html_url i, issue_title i)]]) open_pull_requests
      else
        sort_issues issues open_issues (open_pull_requests @ [[(issue_html_url i, issue_title i)]]))"

definition get_open_issues_and_prs ::
  "'e transport \<Rightarrow> repo \<Rightarrow> 'e world \<Rightarrow> (string dict list \<times> string dict list, 'e) result" where
  "get_open_issues_and_prs net repo w =
     (case get net (''/repos/adafruit/'' @ name repo @ ''/issues'')
             (no_kwargs\<lparr>kw_params := Some [(''state'', ''open'')]\<rparr>) w of
        (Inl e, w1) \<Rightarrow> (Inl e, w1)
      | (Inr result, w1) \<Rightarrow>
          if \<not> ok result then (Inr ([], []), w1)
          else
            (case issues_of result of
               Inl e \<Rightarrow> (Inl e, w1)
             | Inr issues \<Rightarrow> (Inr (sort_issues issues [] []), w1)))"

text \<open>
  The loop of \<open>get_contributors\<close> over the pull requests of the page. \<open>strptime\<close> is the
  library's parser of the time stamp (\<open>None\<close> is its \<open>ValueError\<close>), with times on the
  scale of \<open>clock\<close>.
\<close>

fun scan_pulls ::
  "'e transport \<Rightarrow> (string \<Rightarrow> int option) \<Rightarrow> int \<Rightarrow> pull list \<Rightarrow>
     string list \<times> string list \<times> int \<Rightarrow> 'e world \<Rightarrow> (string list \<times> string list \<times> int, 'e) result" where
  "scan_pulls net strptime today_minus_seven [] acc w = (Inr acc, w)"
| "scan_pulls net strptime today_minus_seven (pr # prs) (contributors, reviewers, merged_pr_count) w =
     (case merged_at pr of
        Absent \<Rightarrow>
          scan_pulls net strptime today_minus_seven prs (contributors, reviewers, merged_pr_count) w
      | Null \<Rightarrow>
          scan_pulls net strptime today_minus_seven prs (contributors, reviewers, merged_pr_count) w
      | Stamp s \<Rightarrow>
          (case strptime s of
             None \<Rightarrow> (Inl (ValueError s), w)
           | Some merged \<Rightarrow>
               if merged < today_minus_seven then
                 scan_pulls net strptime today_minus_seven prs
                   (contributors, reviewers, merged_pr_count) w
               else
                 (case get net (pull_url pr) no_kwargs w of
                    (Inl e, w1) \<Rightarrow> (Inl e, w1)
                  | (Inr single_pr, w1) \<Rightarrow>
                      if \<not> ok single_pr then
                        scan_pulls net strptime today_minus_seven prs
                          (contributors @ [user_login pr], reviewers, merged_pr_count + 1) w1
                      else
                        (case pull_info_of single_pr of
                           Inl e \<Rightarrow> (Inl e, w1)
                         | Inr pr_info \<Rightarrow>
                             (case get net (info_url pr_info @ ''/reviews'') no_kwargs w1 of
                                (Inl e, w2) \<Rightarrow> (Inl e, w2)
                              | (Inr pr_reviews, w2) \<Rightarrow>
                                  if \<not> ok pr_reviews then
                                    scan_pulls net strptime today_minus_seven prs
                                      (contributors @ [user_login pr],
                                       reviewers @ [merged_by_login pr_info],
                                       merged_pr_count + 1) w2
                                  else
                                    (case reviews_of pr_reviews of
                                       Inl e \<Rightarrow> (Inl e, w2)
                                     | Inr reviews \<Rightarrow>
                                         scan_pulls net strptime today_minus_seven prs
                                           (contributors @ [user_login pr],
                                            reviewers @ [merged_by_login pr_info]
                                              @ map review_user_login
                                                  (filter (\<lambda>review. lower (review_state review) = ''approved'')
                                                     reviews),
                                            merged_pr_count + 1) w2))))))"

definition seven_days :: int where
  "seven_days = 7 * 86400 * 1000000"

definition get_contributors ::
  "'e transport \<Rightarrow> (string \<Rightarrow> int option) \<Rightarrow> repo \<Rightarrow> 'e world \<Rightarrow>
     (string list \<times> string list \<times> int, 'e) result" where
  "get_contributors net strptime repo w =
     (case get net (''/repos/adafruit/'' @ name repo @ ''/pulls'')
             (no_kwargs\<lparr>kw_params :=
                Some [(''state'', ''closed''), (''sort'', ''updated''), (''direction'', ''desc'')]\<rparr>) w of
        (Inl e, w1) \<Rightarrow> (Inl e, w1)
      | (Inr result, w1) \<Rightarrow>
          if ok result then
            (let today_minus_seven = fst (now w1) - seven_days in
             case pulls_of result of
               Inl e \<Rightarrow> (Inl e, snd (now w1))
             | Inr prs \<Rightarrow> scan_pulls net strptime today_minus_seven prs ([], [], 0) (snd (now w1)))
          else (Inr ([], [], 0), w1))"



section \<open>The aggregation loop\<close>

text \<open>An error signal of the validator: an error kind, or a pair of an error kind and a
  number of days.\<close>

datatype error_signal = Kind string | KindDays string int

text \<open>
  What the program uses and this repository does not define: the transport, the library
  functions for dates, hashing and encoding, the collaborators of \<open>adabot.lib\<close> and
  their constants. The collaborators may raise, take time and talk to the server, so they
  act on the whole world. \<open>str_hash\<close> ranks the strings the way this run's string hash
  lays them out in a \<open>set\<close>.
\<close>

record 'e collab =
  net :: "'e transport"
  strptime :: "string \<Rightarrow> int option"
  strftime_iso :: "int \<Rightarrow> string"
  strftime_dby :: "int \<Rightarrow> string"
  b64encode :: "string \<Rightarrow> string"
  dumps :: "json \<Rightarrow> string"
  str_hash :: "string \<Rightarrow> nat"
  is_new_or_updated :: "repo \<Rightarrow> 'e world \<Rightarrow> (string option, 'e) result"
  run_repo_validation :: "repo \<Rightarrow> 'e world \<Rightarrow> (error_signal list, 'e) result"
  clear_output_file_data :: "'e \<Rightarrow> 'e"
  BUNDLE_IGNORE_LIST :: "string list"
  ERROR_OUTPUT_HANDLER :: string

text \<open>The variables the loop accumulates into.\<close>

record accum =
  new_libs :: "string dict"
  updated_libs :: "string dict"
  open_issues_by_repo :: "string dict list dict"
  open_prs_by_repo :: "string dict list dict"
  contributors :: "string list"
  reviewers :: "string list"
  merged_pr_count_total :: int
  repos_by_error :: "string list dict"

definition empty_accum :: accum where
  "empty_accum =
     \<lparr>new_libs = [], updated_libs = [], open_issues_by_repo = [], open_prs_by_repo = [],
      contributors = [], reviewers = [], merged_pr_count_total = 0, repos_by_error = []\<rparr>"

text \<open>
  \<open>if k not in d: d[k] = []\<close> followed by \<open>d[k].append(x)\<close>.
\<close>

definition append_under :: "string \<Rightarrow> string \<Rightarrow> string list dict \<Rightarrow> string list dict" where
  "append_under k x d =
     AList.map_entry k (\<lambda>xs. xs @ [x]) (if k \<notin> fst ` set d then AList.update k [] d else d)"

text \<open>The loop over the error signals of one repository (the printing is left out).\<close>

fun record_errors ::
  "'e collab \<Rightarrow> repo \<Rightarrow> error_signal list \<Rightarrow> string list dict \<Rightarrow> 'e world \<Rightarrow>
     string list dict \<times> 'e world" where
  "record_errors c repo [] ledger w = (ledger, w)"
| "record_errors c repo (Kind k # errors) ledger w =
     record_errors c repo errors (append_under k (html_url repo) ledger)
       (if k = ERROR_OUTPUT_HANDLER c then w\<lparr>ext := clear_output_file_data c (ext w)\<rparr> else w)"
| "record_errors c repo (KindDays k days # errors) ledger w =
     record_errors c repo errors
       (append_under k (html_url repo @ '' ('' @ py_str days @ '' days)'') ledger) w"

text \<open>The test that makes the loop skip a repository.\<close>

definition excluded :: "'e collab \<Rightarrow> repo \<Rightarrow> bool" where
  "excluded c repo = (name repo \<in> set (BUNDLE_IGNORE_LIST c) \<or> name repo = ''circuitpython'')"

text \<open>The body of the loop for a repository that is not skipped.\<close>

definition process_repo :: "'e collab \<Rightarrow> repo \<Rightarrow> accum \<Rightarrow> 'e world \<Rightarrow> (accum, 'e) result" where
  "process_repo c repo acc w =
     (case is_new_or_updated c repo w of
        (Inl e, w1) \<Rightarrow> (Inl e, w1)
      | (Inr check_releases, w1) \<Rightarrow>
          (let acc1 =
             (if check_releases = Some ''new'' then
                acc\<lparr>new_libs := AList.update (name repo) (html_url repo) (new_libs acc)\<rparr>
              else if check_releases = Some ''updated'' then
                acc\<lparr>updated_libs := AList.update (name repo) (html_url repo) (updated_libs acc)\<rparr>
              else acc)
           in
             case get_open_issues_and_prs (net c) repo w1 of
               (Inl e, w2) \<Rightarrow> (Inl e, w2)
             | (Inr (check_issues, check_prs), w2) \<Rightarrow>
                 (let acc2 =
                    (if check_issues \<noteq> [] then
                       acc1\<lparr>open_issues_by_repo :=
                         AList.update (name repo) check_issues (open_issues_by_repo acc1)\<rparr>
                     else acc1);
                      acc3 =
                    (if check_prs \<noteq> [] then
                       acc2\<lparr>open_prs_by_repo :=
                         AList.update (name repo) check_prs (open_prs_by_repo acc2)\<rparr>
                     else acc2)
                  in
                    case get_contributors (net c) (strptime c) repo w2 of
                      (Inl e, w3) \<Rightarrow> (Inl e, w3)
                    | (Inr (get_contribs, get_revs, get_merge_count), w3) \<Rightarrow>
                        (let acc4 =
                           (if get_contribs \<noteq> [] then
                              acc3\<lparr>contributors := contributors acc3 @ get_contribs\<rparr>
                            else acc3);
                             acc5 =
                           (if get_revs \<noteq> [] then acc4\<lparr>reviewers := reviewers acc4 @ get_revs\<rparr>
                            else acc4);
                             acc6 =
                           acc5\<lparr>merged_pr_count_total := merged_pr_count_total acc5 + get_merge_count\<rparr>
                         in
                           case run_repo_validation c repo w3 of
                             (Inl e, w4) \<Rightarrow> (Inl e, w4)
                           | (Inr errors, w4) \<Rightarrow>
                               (case record_errors c repo errors (repos_by_error acc6) w4 of
                                  (ledger, w5) \<Rightarrow> (Inr (acc6\<lparr>repos_by_error := ledger\<rparr>), w5))))))"

text \<open>\<open>for repo in repos\<close>\<close>

fun aggregate :: "'e collab \<Rightarrow> repo list \<Rightarrow> accum \<Rightarrow> 'e world \<Rightarrow> (accum, 'e) result" where
  "aggregate c [] acc w = (Inr acc, w)"
| "aggregate c (repo # repos) acc w =
     (if excluded c repo then
        aggregate c repos acc w
      else
        (case process_repo c repo acc w of
           (Inl e, w1) \<Rightarrow> (Inl e, w1)
         | (Inr acc1, w1) \<Rightarrow> aggregate c repos acc1 w1))"


section \<open>The report\<close>

text \<open>
  The copy of a dictionary that the program fills in the order of
  \<open>sorted(d, key=str.lower)\<close>. Python's sort is stable, as \<open>sort_key\<close> is. Every key
  of the iteration is a key of \<open>d\<close>, so the lookup never fails.
\<close>

definition sorted_copy :: "'v dict \<Rightarrow> 'v dict" where
  "sorted_copy d =
     foldl (\<lambda>out k. case map_of d k of Some v \<Rightarrow> AList.update k v out | None \<Rightarrow> out) []
       (sort_key lower (map fst d))"

text \<open>
  \<open>[x for x in set(xs)]\<close>: every element once. The order is the one of the hash table,
  which the element's hash decides, and the order of insertion where hashes tie.
\<close>

definition set_items :: "(string \<Rightarrow> nat) \<Rightarrow> string list \<Rightarrow> string list" where
  "set_items h xs = sort_key h (remdups xs)"

definition str_dict_json :: "string dict \<Rightarrow> json" where
  "str_dict_json d = JObj (map (\<lambda>(k, v). (k, JStr v)) d)"

definition issues_dict_json :: "string dict list dict \<Rightarrow> json" where
  "issues_dict_json d = JObj (map (\<lambda>(k, ds). (k, JArr (map str_dict_json ds))) d)"

definition ledger_json :: "string list dict \<Rightarrow> json" where
  "ledger_json d = JObj (map (\<lambda>(k, urls). (k, JArr (map JStr urls))) d)"

text \<open>The sorting of the five dictionaries and the assembly of \<open>build_json\<close>.\<close>

definition build_json :: "'e collab \<Rightarrow> int \<Rightarrow> accum \<Rightarrow> json" where
  "build_json c run_time acc =
     (let sorted_new_list = sorted_copy (new_libs acc);
          sorted_updated_list = sorted_copy (updated_libs acc);
          sorted_issues_list = sorted_copy (open_issues_by_repo acc);
          sorted_prs_list = sorted_copy (open_prs_by_repo acc);
          sorted_repos_by_error = sorted_copy (repos_by_error acc)
      in JObj
        [(''updated_at'', JStr (strftime_iso c run_time)),
         (''contributors'', JArr (map JStr (set_items (str_hash c) (contributors acc)))),
         (''reviewers'', JArr (map JStr (set_items (str_hash c) (reviewers acc)))),
         (''merged_pr_count'', JStr (py_str (merged_pr_count_total acc))),
         (''library_updates'',
            JObj [(''new'', str_dict_json sorted_new_list),
                  (''updated'', str_dict_json sorted_updated_list)]),
         (''open_issues'', issues_dict_json sorted_issues_list),
         (''pull_requests'', issues_dict_json sorted_prs_list),
         (''repo_infrastructure_errors'', ledger_json sorted_repos_by_error)])"

text \<open>
  The run from the list of repositories to the Report Document: the clock is read for
  \<open>run_time\<close>, the loop runs, the report is assembled.
\<close>

definition report :: "'e collab \<Rightarrow> repo list \<Rightarrow> 'e world \<Rightarrow> (json, 'e) result" where
  "report c repos w =
     (case aggregate c repos empty_accum (snd (now w)) of
        (Inl e, w1) \<Rightarrow> (Inl e, w1)
      | (Inr acc, w1) \<Rightarrow> (Inr (build_json c (fst (now w)) acc), w1))"


section \<open>Publishing\<close>

definition master_url :: string where
  "master_url = ''/repos/adafruit/circuitpython-org/''"

definition fork_url :: string where
  "fork_url = ''/repos/adafruit-adabot/circuitpython-org/''"

definition newline :: string where
  "newline = [CHR 0x0A]"

text \<open>
  The second half of \<open>update_json_file\<close>: the update of the file on the branch and the
  pull request.
\<close>

definition update_and_open_pr ::
  "'e collab \<Rightarrow> string \<Rightarrow> string \<Rightarrow> string \<Rightarrow> string \<Rightarrow> 'e world \<Rightarrow> (unit, 'e) result" where
  "update_and_open_pr c json_string date_text branch_name blob_sha w =
     (let commit_msg = ''Automated Libraries update for '' @ date_text;
          content = json_string @ newline;
          update_json = JObj
            [(''message'', JStr commit_msg),
             (''content'', JStr (b64encode c content)),
             (''sha'', JStr blob_sha),
             (''branch'', JStr branch_name)]
      in
        case put (net c) (fork_url @ ''contents/_data/libraries.json'')
               (no_kwargs\<lparr>kw_json := Some update_json\<rparr>) w of
          (Inl e, w1) \<Rightarrow> (Inl e, w1)
        | (Inr response, w1) \<Rightarrow>
            if \<not> ok response then
              (Inl (RuntimeError (''Failed to update libraries.json:'' @ newline @ body_text response)), w1)
            else
              (let pr_info = JObj
                 [(''title'', JStr commit_msg),
                  (''head'', JStr (''adafruit-adabot:'' @ branch_name)),
                  (''base'', JStr ''master''),
                  (''body'', JStr commit_msg),
                  (''maintainer_can_modify'', JBool True)]
               in
                 case post (net c) (master_url @ ''pulls'') (no_kwargs\<lparr>kw_json := Some pr_info\<rparr>) w1 of
                   (Inl e, w2) \<Rightarrow> (Inl e, w2)
                 | (Inr response2, w2) \<Rightarrow>
                     if \<not> ok response2 then
                       (Inl (RuntimeError
                          (''Failed to create pull request:'' @ newline @ body_text response2)), w2)
                     else (Inr (), w2)))"

text \<open>
  The test after the creation of the branch:
  \<open>not response.ok and response.json()["message"] != "Reference already exists"\<close>, where
  \<open>and\<close> looks at the message only when the response is not ok.
\<close>

definition branch_creation_failed :: "response \<Rightarrow> error + bool" where
  "branch_creation_failed response =
     (if \<not> ok response then
        (case message_of response of
           Inl e \<Rightarrow> Inl e
         | Inr m \<Rightarrow> Inr (m \<noteq> ''Reference already exists''))
      else Inr False)"

definition update_json_file :: "'e collab \<Rightarrow> string \<Rightarrow> 'e world \<Rightarrow> (unit, 'e) result" where
  "update_json_file c json_string w =
     (let date_text = strftime_dby c (fst (now w));
          branch_name = ''libraries_update_'' @ date_text
      in
        case get (net c) (master_url @ ''git/refs/heads/master'') no_kwargs (snd (now w)) of
          (Inl e, w1) \<Rightarrow> (Inl e, w1)
        | (Inr response, w1) \<Rightarrow>
            if \<not> ok response then
              (Inl (RuntimeError (''Failed to retrieve master sha:'' @ newline @ body_text response)), w1)
            else
              (case ref_sha_of response of
                 Inl e \<Rightarrow> (Inl e, w1)
               | Inr commit_sha \<Rightarrow>
                   (case get (net c) (master_url @ ''contents/_data/libraries.json?ref='' @ commit_sha)
                           no_kwargs w1 of
                      (Inl e, w2) \<Rightarrow> (Inl e, w2)
                    | (Inr response2, w2) \<Rightarrow>
                        if \<not> ok response2 then
                          (Inl (RuntimeError
                             (''Failed to retrieve libraries.json sha:'' @ newline @ body_text response2)),
                           w2)
                        else
                          (case content_sha_of response2 of
                             Inl e \<Rightarrow> (Inl e, w2)
                           | Inr blob_sha \<Rightarrow>
                               (let branch_info = JObj
                                  [(''ref'', JStr (''refs/heads/'' @ branch_name)),
                                   (''sha'', JStr commit_sha)]
                                in
                                  case post (net c) (fork_url @ ''git/refs'')
                                         (no_kwargs\<lparr>kw_json := Some branch_info\<rparr>) w2 of
                                    (Inl e, w3) \<Rightarrow> (Inl e, w3)
                                  | (Inr response3, w3) \<Rightarrow>
                                      (case branch_creation_failed response3 of
                                         Inl e \<Rightarrow> (Inl e, w3)
                                       | Inr True \<Rightarrow>
                                           (Inl (RuntimeError
                                              (''Failed to create branch:'' @ newline
                                                 @ body_text response3)), w3)
                                       | Inr False \<Rightarrow>
                                           update_and_open_pr c json_string date_text branch_name
                                             blob_sha w3))))))"


section \<open>Predicates of the specification and concrete scenarios\<close>

text \<open>
  A response that reports one remaining call and a reset at second 1000, a transport that
  always gives it, and a world whose clock stands at second 1.
\<close>

definition limited_response :: response where
  "limited_response =
     \<lparr>ok = True,
      headers = [(''X-RateLimit-Remaining'', ''1''), (''X-RateLimit-Reset'', ''1000'')],
      body_text = ''[]'', payload = IssueList []\<rparr>"

definition limited_net :: "unit transport" where
  "limited_net rq e = (Inr limited_response, e)"

definition early_world :: "unit world" where
  "early_world = \<lparr>clock = 1000000, delays = [250000, 10], environ = [], sent = [], ext = ()\<rparr>"

text \<open>
  What the claim about the 7-day window says in the terms of the model: the pull request has
  a \<open>merged_at\<close> that is there, is not null, and parses to a time that is not before
  today minus 7 days.
\<close>

definition merged_in_window :: "(string \<Rightarrow> int option) \<Rightarrow> int \<Rightarrow> pull \<Rightarrow> bool" where
  "merged_in_window sp today_minus_seven pr =
     (case merged_at pr of
        Stamp s \<Rightarrow> (case sp s of Some merged \<Rightarrow> today_minus_seven \<le> merged | None \<Rightarrow> False)
      | _ \<Rightarrow> False)"

text \<open>
  A small organisation: the repositories \<open>alpha\<close> and \<open>Beta\<close> and the umbrella
  project. The clock stands at day 10; times are written as days. \<open>alpha\<close> has one issue
  and one open pull request, and four closed pull requests: one merged on day 5 by
  \<open>bob\<close> with three reviews, one with a null \<open>merged_at\<close>, one without the field and
  one merged on day 1. \<open>Beta\<close> has one issue and one closed pull request, merged on day 8,
  whose detail request fails.
\<close>

definition day :: "int \<Rightarrow> int" where
  "day n = n * 86400 * 1000000"

definition demo_strptime :: "string \<Rightarrow> int option" where
  "demo_strptime s =
     (if s = ''1970-01-02T00:00:00Z'' then Some (day 1)
      else if s = ''1970-01-06T00:00:00Z'' then Some (day 5)
      else if s = ''1970-01-09T00:00:00Z'' then Some (day 8)
      else None)"

definition plain_response :: "bool \<Rightarrow> payload \<Rightarrow> response" where
  "plain_response success p = \<lparr>ok = success, headers = [], body_text = ''...'', payload = p\<rparr>"

definition alpha_issues :: "issue list" where
  "alpha_issues =
     [\<lparr>issue_html_url = ''https://github.com/adafruit/alpha/issues/7'',
        issue_title = ''Crash on import'', has_pull_request = False\<rparr>,
      \<lparr>issue_html_url = ''https://github.com/adafruit/alpha/pull/9'',
        issue_title = ''Fix the crash'', has_pull_request = True\<rparr>]"

definition alpha_pulls :: "pull list" where
  "alpha_pulls =
     [\<lparr>merged_at = Stamp ''1970-01-06T00:00:00Z'', user_login = ''alice'',
        pull_url = ''https://api.github.com/repos/adafruit/alpha/pulls/1''\<rparr>,
      \<lparr>merged_at = Null, user_login = ''mallory'',
        pull_url = ''https://api.github.com/repos/adafruit/alpha/pulls/2''\<rparr>,
      \<lparr>merged_at = Absent, user_login = ''trent'',
        pull_url = ''https://api.github.com/repos/adafruit/alpha/pulls/3''\<rparr>,
      \<lparr>merged_at = Stamp ''1970-01-02T00:00:00Z'', user_login = ''oscar'',
        pull_url = ''https://api.github.com/repos/adafruit/alpha/pulls/4''\<rparr>]"

definition Beta_pulls :: "pull list" where
  "Beta_pulls =
     [\<lparr>merged_at = Stamp ''1970-01-09T00:00:00Z'', user_login = ''alice'',
        pull_url = ''https://api.github.com/repos/adafruit/Beta/pulls/1''\<rparr>]"

definition demo_pages :: "(string \<times> payload) list" where
  "demo_pages =
     [(''https://api.github.com/repos/adafruit/alpha/issues'', IssueList alpha_issues),
      (''https://api.github.com/repos/adafruit/Beta/issues'',
         IssueList
           [\<lparr>issue_html_url = ''https://github.com/adafruit/Beta/issues/2'',
              issue_title = ''Docs'', has_pull_request = False\<rparr>]),
      (''https://api.github.com/repos/adafruit/alpha/pulls'', PullList alpha_pulls),
      (''https://api.github.com/repos/adafruit/Beta/pulls'', PullList Beta_pulls),
      (''https://api.github.com/repos/adafruit/alpha/pulls/1'',
         PullInfo \<lparr>merged_by_login = ''bob'',
                   info_url = ''https://api.github.com/repos/adafruit/alpha/pulls/1''\<rparr>),
      (''https://api.github.com/repos/adafruit/alpha/pulls/1/reviews'',
         ReviewList
           [\<lparr>review_state = ''APPROVED'', review_user_login = ''carol''\<rparr>,
            \<lparr>review_state = ''COMMENTED'', review_user_login = ''dave''\<rparr>,
            \<lparr>review_state = ''Approved'', review_user_login = ''bob''\<rparr>])]"

definition demo_net :: "unit transport" where
  "demo_net rq e =
     (case map_of demo_pages (rq_url rq) of
        Some p \<Rightarrow> (Inr (plain_response True p), e)
      | None \<Rightarrow> (Inr (plain_response False (Message ''Not Found'')), e))"

definition demo :: "unit collab" where
  "demo =
     \<lparr>net = demo_net,
      strptime = demo_strptime,
      strftime_iso = (\<lambda>t. ''1970-01-11T00:00:00Z''),
      strftime_dby = (\<lambda>t. ''11-Jan-70''),
      b64encode = (\<lambda>s. s),
      dumps = (\<lambda>j. ''{}''),
      str_hash = length,
      is_new_or_updated =
        (\<lambda>repo w. (Inr (if name repo = ''alpha'' then Some ''new''
                         else if name repo = ''Beta'' then Some ''updated'' else None), w)),
      run_repo_validation =
        (\<lambda>repo w. (Inr (if name repo = ''alpha''
                          then [KindDays ''missing_license'' 5, Kind ''missing_readme'']
                          else [Kind ''missing_readme'']), w)),
      clear_output_file_data = (\<lambda>e. e),
      BUNDLE_IGNORE_LIST = [''Adafruit_CircuitPython_Bundle''],
      ERROR_OUTPUT_HANDLER = ''output_handler''\<rparr>"

definition alpha :: repo where
  "alpha = \<lparr>name = ''alpha'', html_url = ''https://github.com/adafruit/alpha''\<rparr>"

definition Beta :: repo where
  "Beta = \<lparr>name = ''Beta'', html_url = ''https://github.com/adafruit/Beta''\<rparr>"

definition umbrella :: repo where
  "umbrella = \<lparr>name = ''circuitpython'', html_url = ''https://github.com/adafruit/circuitpython''\<rparr>"

definition day10 :: "unit world" where
  "day10 = \<lparr>clock = day 10, delays = [], environ = [], sent = [], ext = ()\<rparr>"


section \<open>The rate limit\<close>

lemma elapse_fields [simp]:
  "sent (elapse w) = sent w" "ext (elapse w) = ext w" "environ (elapse w) = environ w"
  by (simp_all add: elapse_def split: list.splits)

lemma elapse_clock: "clock w \<le> clock (elapse w)"
  by (simp add: elapse_def split: list.splits)

lemma sleep_fields [simp]:
  "sent (sleep n w) = sent w" "ext (sleep n w) = ext w" "environ (sleep n w) = environ w"
  by (simp_all add: sleep_def)

lemma now_fields [simp]:
  "sent (snd (now w)) = sent w" "ext (snd (now w)) = ext w" "environ (snd (now w)) = environ w"
  by (simp_all add: now_def)

text \<open>The loop returns only with the clock at or after the reset time, however the sleeps
  and the delays fall.\<close>

lemma wait_for_reset_clock: "rate_limit_reset \<le> clock (wait_for_reset rate_limit_reset w)"
proof (induction rate_limit_reset w rule: wait_for_reset.induct)
  case (1 r w)
  show ?case
  proof (cases "fst (now w) < r")
    case False
    then show ?thesis
      by (simp add: wait_for_reset.simps [of r w] now_def)
  next
    case True
    then show ?thesis using 1
      by (simp add: wait_for_reset.simps [of r w] Let_def)
  qed
qed

text \<open>The loop sends nothing and leaves the outside state alone.\<close>

lemma wait_for_reset_fields:
  "sent (wait_for_reset r w) = sent w \<and> ext (wait_for_reset r w) = ext w
   \<and> environ (wait_for_reset r w) = environ w"
proof (induction r w rule: wait_for_reset.induct)
  case (1 r w)
  show ?case
  proof (cases "fst (now w) < r")
    case False
    then show ?thesis
      by (simp add: wait_for_reset.simps [of r w])
  next
    case True
    then show ?thesis using 1
      by (simp add: wait_for_reset.simps [of r w] Let_def)
  qed
qed

text \<open>
  C1. When the response to a GET carries the remaining-calls header with a value of at
  most 1 (and the reset header that goes with it), \<open>get\<close> returns the response only after
  its loop has seen the clock at or after the reset time, which is the reset header's
  number of seconds: the world it returns in has a clock that is not before the reset
  time, and the request log holds the one request of this call and nothing more, so that no
  other call was issued while it waited, and the caller's next call comes after the reset.
  The loop is total: it comes back whatever the delays are.
\<close>

theorem get_blocks_until_reset:
  assumes "send tp (outbound GET url kw w) w = (Inr response, w1)"
    and "header_lookup (headers response) ''X-RateLimit-Remaining'' = Some remaining_header"
    and "py_int remaining_header = Some remaining"
    and "remaining \<le> 1"
    and "header_lookup (headers response) ''X-RateLimit-Reset'' = Some reset_header"
    and "py_int reset_header = Some ts"
    and "fromtimestamp ts = Inr rate_limit_reset"
  shows "get tp url kw w = (Inr response, wait_for_reset rate_limit_reset w1)
     \<and> rate_limit_reset = ts * 1000000
     \<and> rate_limit_reset \<le> clock (snd (get tp url kw w))
     \<and> sent (snd (get tp url kw w)) = sent w @ [outbound GET url kw w]"
proof -
  have g: "get tp url kw w = (Inr response, wait_for_reset rate_limit_reset w1)"
    using assms by (simp add: get_def)
  have r: "rate_limit_reset = ts * 1000000"
    using assms(7) by (simp add: fromtimestamp_def split: if_splits)
  have s: "sent w1 = sent w @ [outbound GET url kw w]"
    using assms(1) by (auto simp: send_def split: prod.splits)
  show ?thesis
    using g r s wait_for_reset_clock [of rate_limit_reset w1]
      wait_for_reset_fields [of rate_limit_reset w1] by simp
qed

theorem get_blocks_until_reset_witness:
  "1000 * 1000000 \<le> clock (snd (get limited_net ''/rate_limit'' no_kwargs early_world))
   \<and> sent (snd (get limited_net ''/rate_limit'' no_kwargs early_world))
       = sent early_world @ [outbound GET ''/rate_limit'' no_kwargs early_world]"
proof -
  let ?w1 = "elapse (early_world\<lparr>sent := sent early_world
      @ [outbound GET ''/rate_limit'' no_kwargs early_world], ext := ()\<rparr>)"
  have 1: "send limited_net (outbound GET ''/rate_limit'' no_kwargs early_world) early_world
            = (Inr limited_response, ?w1)"
    by (simp add: send_def limited_net_def)
  have 2: "header_lookup (headers limited_response) ''X-RateLimit-Remaining'' = Some ''1''"
    by code_simp
  have 3: "py_int ''1'' = Some 1" by code_simp
  have 4: "(1::int) \<le> 1" by simp
  have 5: "header_lookup (headers limited_response) ''X-RateLimit-Reset'' = Some ''1000''"
    by code_simp
  have 6: "py_int ''1000'' = Some 1000" by code_simp
  have 7: "fromtimestamp 1000 = Inr (1000 * 1000000)" by (simp add: fromtimestamp_def)
  show ?thesis
    using get_blocks_until_reset [OF 1 2 3 4 5 6 7] by blast
qed


section \<open>The Accept header\<close>

text \<open>
  C9. When the caller supplies headers with an \<open>Accept\<close> entry, the request that any verb
  hands to the transport has the caller's headers with \<open>Accept\<close> set to the caller's
  value, a semicolon and the preview value: the caller's value is kept, as a prefix of
  what is sent.
\<close>

theorem fix_kwargs_appends_accept:
  assumes "kw_headers kw = Some hs" and "map_of hs ''Accept'' = Some a"
  shows "kw_headers (rq_kwargs (outbound v url kw w))
           = Some (AList.update ''Accept'' (a @ '';'' @ api_version) hs)
     \<and> map_of (AList.update ''Accept'' (a @ '';'' @ api_version) hs) ''Accept''
           = Some (a @ '';'' @ api_version)
     \<and> take (length a) (a @ '';'' @ api_version) = a"
  using assms
  by (auto simp: fix_kwargs_def outbound_def Let_def update_conv' split: option.splits)

theorem fix_kwargs_appends_accept_witness:
  "kw_headers (rq_kwargs (outbound POST ''/x''
       (no_kwargs\<lparr>kw_headers := Some [(''User-Agent'', ''adabot''), (''Accept'', ''text/plain'')]\<rparr>)
       early_world))
     = Some [(''User-Agent'', ''adabot''),
             (''Accept'', ''text/plain;'' @ api_version)]"
proof -
  have 1: "kw_headers (no_kwargs\<lparr>kw_headers :=
       Some [(''User-Agent'', ''adabot''), (''Accept'', ''text/plain'')]\<rparr>)
     = Some [(''User-Agent'', ''adabot''), (''Accept'', ''text/plain'')]"
    by simp
  have 2: "map_of [(''User-Agent'', ''adabot''), (''Accept'', ''text/plain'')] ''Accept''
     = Some ''text/plain''"
    by simp
  show ?thesis
    using fix_kwargs_appends_accept [OF 1 2, of POST "''/x''" early_world] by simp
qed

end
